theory Spec2Isabelle
  imports Main
begin

section \<open>Python string primitives used by hashmatch.py\<close>

text \<open>
  The script works on Python \<open>str\<close> values with \<open>find\<close>, slicing, \<open>lstrip\<close>,
  \<open>rstrip\<close> and the \<open>os.path\<close> functions \<open>join\<close>, \<open>dirname\<close> and \<open>basename\<close>.
  Strings are modelled as \<open>string\<close> (lists of characters); indices are Python
  integers (\<open>int\<close>), because \<open>find\<close> answers \<open>-1\<close> and the script feeds that
  answer back into slices.
\<close>

definition tab :: char where
  "tab = CHR 0x09"

definition newline :: char where
  "newline = CHR 0x0A"

text \<open>
  A slice bound \<open>i\<close> on a string of length \<open>n\<close>: a negative bound counts from the
  end, and every bound is clamped into \<open>0..n\<close>. Slicing never raises.
\<close>

definition slice_bound :: "nat \<Rightarrow> int \<Rightarrow> nat" where
  "slice_bound n i = (if i < 0 then nat (max 0 (int n + i)) else min n (nat i))"

text \<open>\<open>s[a:b]\<close>\<close>

definition slice :: "string \<Rightarrow> int \<Rightarrow> int \<Rightarrow> string" where
  "slice s a b = drop (slice_bound (length s) a) (take (slice_bound (length s) b) s)"

text \<open>\<open>s[a:]\<close>\<close>

definition slice_from :: "string \<Rightarrow> int \<Rightarrow> string" where
  "slice_from s a = drop (slice_bound (length s) a) s"

text \<open>\<open>s[:b]\<close>\<close>

definition slice_to :: "string \<Rightarrow> int \<Rightarrow> string" where
  "slice_to s b = take (slice_bound (length s) b) s"

text \<open>Position of the first occurrence of a character, if there is one.\<close>

fun first_pos :: "char \<Rightarrow> string \<Rightarrow> nat option" where
  "first_pos c [] = None"
| "first_pos c (x # xs) = (if x = c then Some 0 else map_option Suc (first_pos c xs))"

text \<open>Position of the last occurrence of a character, if there is one.\<close>

fun last_pos :: "char \<Rightarrow> string \<Rightarrow> nat option" where
  "last_pos c [] = None"
| "last_pos c (x # xs) =
     (case last_pos c xs of
        Some k \<Rightarrow> Some (Suc k)
      | None \<Rightarrow> (if x = c then Some 0 else None))"

text \<open>\<open>s.find(c, start)\<close> for a one-character needle: the lowest index at or after
  \<open>start\<close>, or \<open>-1\<close>.\<close>

definition str_find :: "string \<Rightarrow> char \<Rightarrow> int \<Rightarrow> int" where
  "str_find s c start =
     (let lo = slice_bound (length s) start in
      case first_pos c (drop lo s) of
        None \<Rightarrow> - 1
      | Some k \<Rightarrow> int (lo + k))"

text \<open>\<open>s.rfind(c)\<close> for a one-character needle.\<close>

definition str_rfind :: "string \<Rightarrow> char \<Rightarrow> int" where
  "str_rfind s c = (case last_pos c s of None \<Rightarrow> - 1 | Some k \<Rightarrow> int k)"

text \<open>\<open>s.lstrip(chars)\<close> and \<open>s.rstrip(chars)\<close>: the argument is a set of characters,
  and every leading (trailing) character that belongs to it is removed.\<close>

definition lstrip :: "string \<Rightarrow> string \<Rightarrow> string" where
  "lstrip s chars = dropWhile (\<lambda>c. c \<in> set chars) s"

definition rstrip :: "string \<Rightarrow> string \<Rightarrow> string" where
  "rstrip s chars = rev (dropWhile (\<lambda>c. c \<in> set chars) (rev s))"

text \<open>\<open>s.startswith('/')\<close> and \<open>s.endswith('/')\<close>\<close>

definition startswith_sep :: "string \<Rightarrow> bool" where
  "startswith_sep s = (case s of [] \<Rightarrow> False | c # _ \<Rightarrow> c = CHR ''/'')"

definition endswith_sep :: "string \<Rightarrow> bool" where
  "endswith_sep s = startswith_sep (rev s)"

subsection \<open>os.path on a POSIX system\<close>

text \<open>
  \<open>os.path\<close> belongs to the Python standard library, not to the script; on a POSIX
  system it is \<open>posixpath\<close>, whose two-argument \<open>join\<close>, \<open>dirname\<close> and
  \<open>basename\<close> are transcribed here.
\<close>

definition path_join :: "string \<Rightarrow> string \<Rightarrow> string" where
  "path_join a b =
     (if startswith_sep b then b
      else if a = [] \<or> endswith_sep a then a @ b
      else a @ ''/'' @ b)"

definition basename :: "string \<Rightarrow> string" where
  "basename p = slice_from p (str_rfind p (CHR ''/'') + 1)"

definition dirname :: "string \<Rightarrow> string" where
  "dirname p =
     (let head = slice_to p (str_rfind p (CHR ''/'') + 1) in
      if head \<noteq> [] \<and> head \<noteq> replicate (length head) (CHR ''/'')
      then rstrip head ''/'' else head)"

section \<open>The file system and the lines of a manifest\<close>

text \<open>
  The file system is a parameter: it maps a path to the text that \<open>open(path, "r")\<close>
  would deliver (universal newlines already applied, so every line terminator is
  \<open>\n\<close>), or to \<open>None\<close> when \<open>open\<close> raises for whatever reason.
\<close>

type_synonym filesystem = "string \<Rightarrow> string option"

text \<open>
  Iterating over the file object yields the lines with their terminators; only the
  last line may lack one. \<open>lines_from cur s\<close> carries the line read so far.
\<close>

fun lines_from :: "string \<Rightarrow> string \<Rightarrow> string list" where
  "lines_from cur [] = (if cur = [] then [] else [cur])"
| "lines_from cur (c # cs) =
     (if c = newline then (cur @ [c]) # lines_from [] cs
      else lines_from (cur @ [c]) cs)"

definition file_lines :: "string \<Rightarrow> string list" where
  "file_lines text = lines_from [] text"

section \<open>hashmatch.py\<close>

text \<open>
  The module-level dictionary \<open>files\<close> maps a hash to the list of
  \<open>(length, pathname)\<close> tuples seen with it. Together with the lines printed on
  standard output (one list element per \<open>print\<close> call) it is the state that
  \<open>hashcheck\<close> changes.
\<close>

type_synonym bucket = "(string \<times> string) list"

record state =
  files :: "string \<rightharpoonup> bucket"
  stdout :: "string list"

text \<open>The three fields that the loop body cuts out of a line, and the path it builds.\<close>

definition sp1_of :: "string \<Rightarrow> int" where
  "sp1_of line = str_find line (CHR '' '') 0"

definition sp2_of :: "string \<Rightarrow> int" where
  "sp2_of line = str_find line (CHR '' '') (sp1_of line + 1)"

definition filehash_of :: "string \<Rightarrow> string" where
  "filehash_of line = slice line 0 (sp1_of line)"

definition filelength_of :: "string \<Rightarrow> string" where
  "filelength_of line = slice line (sp1_of line + 1) (sp2_of line)"

definition rawpath_of :: "string \<Rightarrow> string" where
  "rawpath_of line = slice_from line (sp2_of line + 1)"

definition filepath_of :: "string \<Rightarrow> string \<Rightarrow> string" where
  "filepath_of dir line =
     path_join dir (rstrip (lstrip (rawpath_of line) ''./'') [newline])"

text \<open>The line printed for a match: nine fields separated by tabs.\<close>

fun join_tabs :: "string list \<Rightarrow> string" where
  "join_tabs [] = []"
| "join_tabs [f] = f"
| "join_tabs (f # fs) = f @ [tab] @ join_tabs fs"

definition report_line ::
  "string \<Rightarrow> string \<Rightarrow> string \<Rightarrow> string \<Rightarrow> string \<Rightarrow> string" where
  "report_line filehash len1 len2 path1 path2 =
     join_tabs [filehash, len1, len2, dirname path1, dirname path2,
                basename path1, basename path2, path1, path2]"

text \<open>
  The inner loop \<open>for match in files[filehash]\<close>: it prints for the first tuple
  whose length equals \<open>len1\<close> and breaks. The result is what the loop prints.
\<close>

fun scan_bucket :: "string \<Rightarrow> string \<Rightarrow> string \<Rightarrow> bucket \<Rightarrow> string list" where
  "scan_bucket filehash len1 path1 [] = []"
| "scan_bucket filehash len1 path1 ((len2, path2) # rest) =
     (if len1 = len2 then [report_line filehash len1 len2 path1 path2]
      else scan_bucket filehash len1 path1 rest)"

text \<open>The body of \<open>for line in input\<close>.\<close>

definition process_line :: "string \<Rightarrow> state \<Rightarrow> string \<Rightarrow> state" where
  "process_line dir st line =
     (let filehash = filehash_of line;
          filelength = filelength_of line;
          filepath = filepath_of dir line
      in if filelength = ''0'' then st
         else case files st filehash of
                Some bucket \<Rightarrow>
                  st\<lparr>stdout := stdout st @ scan_bucket filehash filelength filepath bucket,
                     files := (files st)(filehash \<mapsto> bucket @ [(filelength, filepath)])\<rparr>
              | None \<Rightarrow>
                  st\<lparr>files := (files st)(filehash \<mapsto> [(filelength, filepath)])\<rparr>)"

text \<open>\<open>hashcheck(dir)\<close>\<close>

definition hashcheck :: "filesystem \<Rightarrow> string \<Rightarrow> state \<Rightarrow> state" where
  "hashcheck fs dir st =
     (case fs (path_join dir ''.hashcheck'') of
        None \<Rightarrow> st\<lparr>stdout := stdout st @ [dir @ '': no .hashcheck found'']\<rparr>
      | Some text \<Rightarrow>
          foldl (process_line dir)
            (st\<lparr>stdout := stdout st @ [dir @ '': processing .hashcheck'']\<rparr>)
            (file_lines text))"

text \<open>
  The main part: \<open>files = {}\<close>, then \<open>hashcheck(dir.rstrip('/'))\<close> for every
  argument after the script name. \<open>run_dirs\<close> is the loop from an arbitrary state.
\<close>

definition initial :: state where
  "initial = \<lparr>files = Map.empty, stdout = []\<rparr>"

definition run_dirs :: "filesystem \<Rightarrow> state \<Rightarrow> string list \<Rightarrow> state" where
  "run_dirs fs st dirs = foldl (\<lambda>s dir. hashcheck fs (rstrip dir ''/'') s) st dirs"

definition main :: "filesystem \<Rightarrow> string list \<Rightarrow> state" where
  "main fs argv = run_dirs fs initial (drop 1 argv)"

section \<open>The path rule in the words of the specification\<close>

text \<open>
  The specification describes the path of a record as: strip a single leading
  \<open>./\<close> prefix from the raw path field (if present) and the trailing line
  terminator, then join with the owning directory. \<open>spec_filepath\<close> follows these
  words, to be compared with \<open>filepath_of\<close>, which follows the script.
\<close>

definition spec_strip_dot_slash :: "string \<Rightarrow> string" where
  "spec_strip_dot_slash p = (if take 2 p = ''./'' then drop 2 p else p)"

definition spec_strip_terminator :: "string \<Rightarrow> string" where
  "spec_strip_terminator p = (if p \<noteq> [] \<and> last p = newline then butlast p else p)"

definition spec_filepath :: "string \<Rightarrow> string \<Rightarrow> string" where
  "spec_filepath dir line =
     path_join dir (spec_strip_terminator (spec_strip_dot_slash (rawpath_of line)))"

section \<open>An invariant of the dictionary\<close>

text \<open>No tuple stored in any bucket carries the length token \<open>0\<close>.\<close>

definition no_zero_length :: "state \<Rightarrow> bool" where
  "no_zero_length st = (\<forall>b \<in> ran (files st). \<forall>e \<in> set b. fst e \<noteq> ''0'')"

section \<open>Example manifests and states\<close>

definition fs_A_B :: filesystem where
  "fs_A_B = [''A/.hashcheck'' \<mapsto> ''h1 100 ./x.bin\<newline>'',
             ''B/.hashcheck'' \<mapsto> ''h1 100 ./y.bin\<newline>'']"

text \<open>The same two manifests when the line has no terminator.\<close>

definition fs_A_B_unterminated :: filesystem where
  "fs_A_B_unterminated = [''A/.hashcheck'' \<mapsto> ''h1 100 ./x.bin'',
                          ''B/.hashcheck'' \<mapsto> ''h1 100 ./y.bin'']"

definition st_7_5_5 :: state where
  "st_7_5_5 = \<lparr>files = [''h'' \<mapsto> [(''7'', ''d/c''), (''5'', ''d/a''), (''5'', ''d/b'')]],
               stdout = []\<rparr>"

definition st_10 :: state where
  "st_10 = \<lparr>files = [''h'' \<mapsto> [(''10'', ''D/a'')]], stdout = []\<rparr>"

definition fs_zero :: filesystem where
  "fs_zero = [''Z/.hashcheck'' \<mapsto>
                ''h 0 ./a\<newline>h 7 ./b\<newline>h 0 ./c\<newline>h 0 ./d\<newline>'']"

definition fs_blank :: filesystem where
  "fs_blank = [''E/.hashcheck'' \<mapsto> ''\<newline>\<newline>'']"

section \<open>Facts about the string primitives\<close>

lemma first_pos_absent: "c \<notin> set s \<Longrightarrow> first_pos c s = None"
  by (induction s) auto

lemma str_find_absent: "c \<notin> set s \<Longrightarrow> str_find s c start = - 1"
proof -
  assume "c \<notin> set s"
  then have "c \<notin> set (drop (slice_bound (length s) start) s)"
    by (auto dest: in_set_dropD)
  then show ?thesis
    by (simp add: str_find_def Let_def first_pos_absent)
qed

lemma slice_to_minus_one: "slice s 0 (- 1) = butlast s"
proof -
  have "nat (max 0 (int (length s) - 1)) = length s - 1" by (cases s) auto
  then show ?thesis
    by (simp add: slice_def slice_bound_def butlast_conv_take)
qed

lemma slice_from_zero: "slice_from s 0 = s"
  by (simp add: slice_from_def slice_bound_def)

section \<open>Facts about the inner loop\<close>

lemma scan_bucket_first_equal_length:
  "\<forall>e \<in> set pre. fst e \<noteq> len1 \<Longrightarrow>
   scan_bucket filehash len1 path1 (pre @ (len1, path2) # post) =
     [report_line filehash len1 len1 path1 path2]"
  by (induction pre) auto

lemma scan_bucket_cases:
  "scan_bucket filehash len1 path1 bucket = [] \<or>
   (\<exists>path2. (len1, path2) \<in> set bucket \<and>
      scan_bucket filehash len1 path1 bucket = [report_line filehash len1 len1 path1 path2])"
proof (induction bucket)
  case Nil
  show ?case by simp
next
  case (Cons e bucket)
  obtain len2 p2 where e: "e = (len2, p2)" by (cases e)
  show ?case
  proof (cases "len1 = len2")
    case True
    with e show ?thesis by auto
  next
    case False
    with e Cons show ?thesis by auto
  qed
qed

lemma scan_bucket_empty_iff:
  "(scan_bucket filehash len1 path1 bucket = []) = (\<forall>e \<in> set bucket. fst e \<noteq> len1)"
proof (induction bucket)
  case Nil
  show ?case by simp
next
  case (Cons e bucket)
  obtain len2 p2 where e: "e = (len2, p2)" by (cases e)
  show ?case
  proof (cases "len1 = len2")
    case True
    with e show ?thesis by simp
  next
    case False
    then have "len2 \<noteq> len1" by simp
    with False e Cons show ?thesis by simp
  qed
qed

section \<open>Facts about the loop body\<close>

lemma process_line_zero: "filelength_of line = ''0'' \<Longrightarrow> process_line dir st line = st"
  by (simp add: process_line_def)

lemma process_line_files:
  "filelength_of line \<noteq> ''0'' \<Longrightarrow>
   files (process_line dir st line) =
     (files st)(filehash_of line \<mapsto>
        (case files st (filehash_of line) of None \<Rightarrow> [] | Some b \<Rightarrow> b) @
        [(filelength_of line, filepath_of dir line)])"
  by (simp add: process_line_def Let_def split: option.splits)

lemma process_line_stdout:
  "filelength_of line \<noteq> ''0'' \<Longrightarrow>
   stdout (process_line dir st line) =
     stdout st @ scan_bucket (filehash_of line) (filelength_of line) (filepath_of dir line)
        (case files st (filehash_of line) of None \<Rightarrow> [] | Some b \<Rightarrow> b)"
  by (simp add: process_line_def Let_def split: option.splits)

section \<open>The invariant holds along every run\<close>

lemma no_zero_length_process_line:
  assumes inv: "no_zero_length st"
  shows "no_zero_length (process_line dir st line)"
proof (cases "filelength_of line = ''0''")
  case True
  with inv show ?thesis by (simp add: process_line_zero)
next
  case False
  show ?thesis
    unfolding no_zero_length_def
  proof (intro ballI)
    fix b e
    assume b: "b \<in> ran (files (process_line dir st line))" and e: "e \<in> set b"
    from b obtain h where h: "files (process_line dir st line) h = Some b"
      by (auto simp: ran_def)
    show "fst e \<noteq> ''0''"
    proof (cases "h = filehash_of line")
      case True
      with h False have beq:
        "b = (case files st (filehash_of line) of None \<Rightarrow> [] | Some b \<Rightarrow> b) @
             [(filelength_of line, filepath_of dir line)]"
        by (simp add: process_line_files)
      show ?thesis
      proof (cases "files st (filehash_of line)")
        case None
        with beq e False show ?thesis by auto
      next
        case (Some old)
        then have "old \<in> ran (files st)" by (auto simp: ran_def)
        with inv have "\<forall>e \<in> set old. fst e \<noteq> ''0''" by (simp add: no_zero_length_def)
        with beq e False Some show ?thesis by auto
      qed
    next
      case neq: False
      with h False have "files st h = Some b" by (simp add: process_line_files)
      then have "b \<in> ran (files st)" by (auto simp: ran_def)
      with inv e show ?thesis by (simp add: no_zero_length_def)
    qed
  qed
qed

lemma no_zero_length_foldl:
  "no_zero_length st \<Longrightarrow> no_zero_length (foldl (process_line dir) st ls)"
  by (induction ls arbitrary: st) (auto simp: no_zero_length_process_line)

lemma no_zero_length_stdout:
  "no_zero_length (st\<lparr>stdout := out\<rparr>) = no_zero_length st"
  by (simp add: no_zero_length_def)

lemma no_zero_length_hashcheck:
  "no_zero_length st \<Longrightarrow> no_zero_length (hashcheck fs dir st)"
  by (simp add: hashcheck_def no_zero_length_foldl no_zero_length_stdout split: option.splits)

lemma no_zero_length_run_dirs:
  "no_zero_length st \<Longrightarrow> no_zero_length (run_dirs fs st dirs)"
  unfolding run_dirs_def
  by (induction dirs arbitrary: st) (auto simp: no_zero_length_hashcheck)

lemma no_zero_length_main: "no_zero_length (main fs argv)"
proof -
  have "no_zero_length initial"
    by (simp add: no_zero_length_def initial_def)
  then show ?thesis
    by (simp add: main_def no_zero_length_run_dirs)
qed

lemma run_dirs_append:
  "run_dirs fs st (before @ after) = run_dirs fs (run_dirs fs st before) after"
  by (simp add: run_dirs_def)

lemma run_dirs_Cons:
  "run_dirs fs st (d # ds) = run_dirs fs (hashcheck fs (rstrip d ''/'') st) ds"
  by (simp add: run_dirs_def)

section \<open>The claims\<close>

subsection \<open>C1: the end-to-end scenario\<close>

text \<open>
  C1, as written: with \<open>A/.hashcheck\<close> holding \<open>h1 100 ./x.bin\<close> and \<open>B/.hashcheck\<close>
  holding \<open>h1 100 ./y.bin\<close>, the run on \<open>A B\<close> prints the match line with the fields
  of \<open>A\<close> first: \<open>h1 100 100 A B x.bin y.bin A/x.bin B/y.bin\<close>. The script does not print
  that line: it is not among the lines of standard output.
\<close>

theorem C1_counterexample:
  "(''h1'' @ [tab] @ ''100'' @ [tab] @ ''100'' @ [tab] @ ''A'' @ [tab] @ ''B'' @ [tab] @
    ''x.bin'' @ [tab] @ ''y.bin'' @ [tab] @ ''A/x.bin'' @ [tab] @ ''B/y.bin'')
   \<notin> set (stdout (main fs_A_B [''hashmatch.py'', ''A'', ''B'']))"
  by code_simp

text \<open>
  C1, amended: the run prints the two progress lines and exactly one match line, and
  in that line the file of \<open>B\<close> (the record being processed when the match is found)
  comes first: \<open>h1 100 100 B A y.bin x.bin B/y.bin A/x.bin\<close>, separated by tabs. The
  same holds when the manifest lines lack their terminator.
\<close>

theorem C1_end_to_end_later_file_first:
  "stdout (main fs_A_B [''hashmatch.py'', ''A'', ''B'']) =
     [''A: processing .hashcheck'', ''B: processing .hashcheck'',
      ''h1'' @ [tab] @ ''100'' @ [tab] @ ''100'' @ [tab] @ ''B'' @ [tab] @ ''A'' @ [tab] @
      ''y.bin'' @ [tab] @ ''x.bin'' @ [tab] @ ''B/y.bin'' @ [tab] @ ''A/x.bin'']
   \<and> stdout (main fs_A_B_unterminated [''hashmatch.py'', ''A'', ''B'']) =
       stdout (main fs_A_B [''hashmatch.py'', ''A'', ''B''])"
  by code_simp

subsection \<open>C2: path normalization\<close>

text \<open>
  C2 says that only a single leading \<open>./\<close> and the line terminator are removed from
  the raw path field. The script calls \<open>lstrip('./')\<close>, which removes every leading
  dot and slash. For the manifest line \<open>abc123 10 ./.gitignore\<close> in directory \<open>data\<close>
  the script builds \<open>data/gitignore\<close>, where the rule of the specification gives
  \<open>data/.gitignore\<close>. On the example of the claim, \<open>abc123 10 ./sub/file.txt\<close>, both
  give \<open>data/sub/file.txt\<close>.
\<close>

theorem C2_lstrip_removes_leading_dots:
  "filepath_of ''data'' ''abc123 10 ./.gitignore\<newline>'' = ''data/gitignore''
   \<and> spec_filepath ''data'' ''abc123 10 ./.gitignore\<newline>'' = ''data/.gitignore''
   \<and> filepath_of ''data'' ''abc123 10 ./sub/file.txt\<newline>'' = ''data/sub/file.txt''
   \<and> spec_filepath ''data'' ''abc123 10 ./sub/file.txt\<newline>'' = ''data/sub/file.txt''"
  by code_simp

subsection \<open>C3: only the first match is reported\<close>

text \<open>
  C3: when the hash of a record (with a length other than \<open>0\<close>) is already in the
  dictionary and its bucket, in insertion order, is \<open>pre\<close>, then a tuple with the
  record's length token, then \<open>post\<close>, where no tuple of \<open>pre\<close> has that length
  token, the loop body prints exactly one line, the report that pairs the record
  with that tuple, whatever \<open>post\<close> holds. In particular a bucket with lengths 5, 5, 7
  and a record of length 5 give one report, with the first tuple.
\<close>

theorem C3_first_match_only:
  assumes "files st (filehash_of line) = Some (pre @ (len2, path2) # post)"
    and "filelength_of line \<noteq> ''0''"
    and "\<forall>e \<in> set pre. fst e \<noteq> filelength_of line"
    and "len2 = filelength_of line"
  shows "stdout (process_line dir st line) =
           stdout st @ [report_line (filehash_of line) (filelength_of line) len2
                          (filepath_of dir line) path2]
         \<and> scan_bucket h ''5'' p [(''5'', a), (''5'', b), (''7'', c)] =
             [report_line h ''5'' ''5'' p a]"
proof -
  have "scan_bucket (filehash_of line) (filelength_of line) (filepath_of dir line)
          (pre @ (filelength_of line, path2) # post) =
        [report_line (filehash_of line) (filelength_of line) (filelength_of line)
           (filepath_of dir line) path2]"
    using assms(3) by (rule scan_bucket_first_equal_length)
  with assms(1,2,4) have "stdout (process_line dir st line) =
           stdout st @ [report_line (filehash_of line) (filelength_of line) len2
                          (filepath_of dir line) path2]"
    by (simp add: process_line_stdout)
  moreover have "scan_bucket h ''5'' p [(''5'', a), (''5'', b), (''7'', c)] =
             [report_line h ''5'' ''5'' p a]"
    by simp
  ultimately show ?thesis by simp
qed

theorem C3_first_match_only_witness:
  "files st_7_5_5 (filehash_of ''h 5 ./new\<newline>'') =
     Some ([(''7'', ''d/c'')] @ (''5'', ''d/a'') # [(''5'', ''d/b'')])
   \<and> filelength_of ''h 5 ./new\<newline>'' \<noteq> ''0''
   \<and> fst (''7'', ''d/c'') \<noteq> filelength_of ''h 5 ./new\<newline>''
   \<and> ''5'' = filelength_of ''h 5 ./new\<newline>''
   \<and> stdout (process_line ''d'' st_7_5_5 ''h 5 ./new\<newline>'') =
       stdout st_7_5_5 @
       [report_line (filehash_of ''h 5 ./new\<newline>'') (filelength_of ''h 5 ./new\<newline>'')
          ''5'' (filepath_of ''d'' ''h 5 ./new\<newline>'') ''d/a'']"
proof -
  have h1: "files st_7_5_5 (filehash_of ''h 5 ./new\<newline>'') =
     Some ([(''7'', ''d/c'')] @ (''5'', ''d/a'') # [(''5'', ''d/b'')])"
    by code_simp
  have h2: "filelength_of ''h 5 ./new\<newline>'' \<noteq> ''0''"
    by code_simp
  have h3: "\<forall>e \<in> set [(''7'', ''d/c'')]. fst e \<noteq> filelength_of ''h 5 ./new\<newline>''"
    by code_simp
  have h4: "''5'' = filelength_of ''h 5 ./new\<newline>''"
    by code_simp
  from C3_first_match_only [OF h1 h2 h3 h4, of "''d''"]
  have "stdout (process_line ''d'' st_7_5_5 ''h 5 ./new\<newline>'') =
       stdout st_7_5_5 @
       [report_line (filehash_of ''h 5 ./new\<newline>'') (filelength_of ''h 5 ./new\<newline>'')
          ''5'' (filepath_of ''d'' ''h 5 ./new\<newline>'') ''d/a'']"
    by (rule conjunct1)
  moreover from h3 have "fst (''7'', ''d/c'') \<noteq> filelength_of ''h 5 ./new\<newline>''"
    by simp
  ultimately show ?thesis using h1 h2 h4 by blast
qed

subsection \<open>C4: records of length 0 are left out\<close>

text \<open>
  C4: a line whose length token is exactly \<open>0\<close> leaves the state as it is: nothing
  is printed and the dictionary is not changed. Hence after any run, on any file
  system and any arguments, no bucket holds a tuple with length token \<open>0\<close>.
\<close>

theorem C4_zero_length_excluded:
  "(filelength_of line = ''0'' \<longrightarrow> process_line dir st line = st)
   \<and> (files (main fs argv) h = Some bucket \<longrightarrow> (''0'', path) \<notin> set bucket)"
proof (intro conjI impI)
  assume "filelength_of line = ''0''"
  then show "process_line dir st line = st" by (rule process_line_zero)
next
  assume b: "files (main fs argv) h = Some bucket"
  then have "bucket \<in> ran (files (main fs argv))" by (auto simp: ran_def)
  with no_zero_length_main [of fs argv]
  have "\<forall>e \<in> set bucket. fst e \<noteq> ''0''" by (simp add: no_zero_length_def)
  then show "(''0'', path) \<notin> set bucket" by auto
qed

text \<open>
  At a manifest where three records of length \<open>0\<close> and one of length \<open>7\<close> share the
  hash \<open>h\<close>: the bucket of \<open>h\<close> holds the record of length 7 only.
\<close>

theorem C4_zero_length_excluded_witness:
  "filelength_of ''h 0 ./a\<newline>'' = ''0''
   \<and> process_line ''Z'' initial ''h 0 ./a\<newline>'' = initial
   \<and> files (main fs_zero [''hashmatch.py'', ''Z'']) ''h'' = Some [(''7'', ''Z/b'')]
   \<and> (''0'', ''Z/a'') \<notin> set [(''7'', ''Z/b'')]"
proof -
  have h1: "filelength_of ''h 0 ./a\<newline>'' = ''0''"
    by code_simp
  have h2: "files (main fs_zero [''hashmatch.py'', ''Z'']) ''h'' = Some [(''7'', ''Z/b'')]"
    by code_simp
  from C4_zero_length_excluded
         [of "''h 0 ./a\<newline>''" "''Z''" initial fs_zero "[''hashmatch.py'', ''Z'']" "''h''"
             "[(''7'', ''Z/b'')]" "''Z/a''"]
  show ?thesis using h1 h2 by blast
qed

subsection \<open>C5: lengths are compared as text\<close>

text \<open>
  C5: for a line whose hash is already in the dictionary, the loop body prints a
  report exactly when the length token is not \<open>0\<close> and some tuple of the bucket
  carries the very same length token, as a string. So two records with the same
  hash and different tokens, such as \<open>10\<close> and \<open>010\<close>, produce no report, although
  the second is appended to the bucket of the first.
\<close>

theorem C5_length_compared_as_text:
  assumes "files st (filehash_of line) = Some bucket"
  shows "(stdout (process_line dir st line) \<noteq> stdout st) =
           (filelength_of line \<noteq> ''0'' \<and>
            (\<exists>path2. (filelength_of line, path2) \<in> set bucket))
         \<and> (filelength_of line \<noteq> ''0'' \<longrightarrow>
              files (process_line dir st line) (filehash_of line) =
                Some (bucket @ [(filelength_of line, filepath_of dir line)]))"
proof (cases "filelength_of line = ''0''")
  case True
  then show ?thesis by (simp add: process_line_zero)
next
  case False
  have "(scan_bucket (filehash_of line) (filelength_of line) (filepath_of dir line) bucket \<noteq> [])
        = (\<exists>path2. (filelength_of line, path2) \<in> set bucket)"
    by (force simp: scan_bucket_empty_iff)
  with False assms show ?thesis
    by (simp add: process_line_stdout process_line_files)
qed

theorem C5_length_compared_as_text_witness:
  "files st_10 (filehash_of ''h 010 ./b\<newline>'') = Some [(''10'', ''D/a'')]
   \<and> stdout (process_line ''D'' st_10 ''h 010 ./b\<newline>'') = stdout st_10
   \<and> files (process_line ''D'' st_10 ''h 010 ./b\<newline>'') (filehash_of ''h 010 ./b\<newline>'') =
       Some [(''10'', ''D/a''), (''010'', ''D/b'')]"
proof -
  have h1: "files st_10 (filehash_of ''h 010 ./b\<newline>'') = Some [(''10'', ''D/a'')]"
    by code_simp
  have h2: "filelength_of ''h 010 ./b\<newline>'' = ''010''"
    by code_simp
  have h3: "filepath_of ''D'' ''h 010 ./b\<newline>'' = ''D/b''"
    by code_simp
  from C5_length_compared_as_text [OF h1, of "''D''"] h1 show ?thesis
    by (simp add: h2 h3)
qed

subsection \<open>C6: the scan comes before the append\<close>

text \<open>
  C6: for a line whose length token is not \<open>0\<close>: when its hash is not yet in the
  dictionary, the loop body prints nothing and stores a new bucket holding only this
  record; when the hash is there with some bucket, what is printed is the result of
  scanning that bucket as it was (the record is not in the list being scanned, so it
  is never compared with itself), and the new bucket is the old one with the record
  appended at the end. Nothing else in the state changes.
\<close>

theorem C6_check_before_append:
  assumes "filelength_of line \<noteq> ''0''"
  shows "(files st (filehash_of line) = None \<longrightarrow>
            process_line dir st line =
              st\<lparr>files := (files st)(filehash_of line \<mapsto>
                              [(filelength_of line, filepath_of dir line)])\<rparr>)
         \<and> (\<forall>bucket. files st (filehash_of line) = Some bucket \<longrightarrow>
              process_line dir st line =
                st\<lparr>stdout := stdout st @
                       scan_bucket (filehash_of line) (filelength_of line)
                         (filepath_of dir line) bucket,
                   files := (files st)(filehash_of line \<mapsto>
                              bucket @ [(filelength_of line, filepath_of dir line)])\<rparr>)"
  using assms by (simp add: process_line_def Let_def)

text \<open>
  At the empty dictionary the first record of hash \<open>h1\<close> opens its bucket and prints
  nothing; at a dictionary that knows \<open>h\<close>, a record of hash \<open>h\<close> is scanned against
  the old bucket and then appended.
\<close>

theorem C6_check_before_append_witness:
  "filelength_of ''h1 100 ./x.bin\<newline>'' \<noteq> ''0''
   \<and> files initial (filehash_of ''h1 100 ./x.bin\<newline>'') = None
   \<and> process_line ''A'' initial ''h1 100 ./x.bin\<newline>'' =
       initial\<lparr>files := (files initial)(''h1'' \<mapsto> [(''100'', ''A/x.bin'')])\<rparr>
   \<and> filelength_of ''h 10 ./b\<newline>'' \<noteq> ''0''
   \<and> files st_10 (filehash_of ''h 10 ./b\<newline>'') = Some [(''10'', ''D/a'')]
   \<and> process_line ''D'' st_10 ''h 10 ./b\<newline>'' =
       st_10\<lparr>stdout := stdout st_10 @ scan_bucket ''h'' ''10'' ''D/b'' [(''10'', ''D/a'')],
             files := (files st_10)(''h'' \<mapsto> [(''10'', ''D/a'')] @ [(''10'', ''D/b'')])\<rparr>"
proof -
  have a1: "filelength_of ''h1 100 ./x.bin\<newline>'' \<noteq> ''0''"
    by code_simp
  have a2: "files initial (filehash_of ''h1 100 ./x.bin\<newline>'') = None"
    by code_simp
  have a3: "filehash_of ''h1 100 ./x.bin\<newline>'' = ''h1''"
    by code_simp
  have a4: "filelength_of ''h1 100 ./x.bin\<newline>'' = ''100''"
    by code_simp
  have a5: "filepath_of ''A'' ''h1 100 ./x.bin\<newline>'' = ''A/x.bin''"
    by code_simp
  have b1: "filelength_of ''h 10 ./b\<newline>'' \<noteq> ''0''"
    by code_simp
  have b2: "files st_10 (filehash_of ''h 10 ./b\<newline>'') = Some [(''10'', ''D/a'')]"
    by code_simp
  have b3: "filehash_of ''h 10 ./b\<newline>'' = ''h''"
    by code_simp
  have b4: "filelength_of ''h 10 ./b\<newline>'' = ''10''"
    by code_simp
  have b5: "filepath_of ''D'' ''h 10 ./b\<newline>'' = ''D/b''"
    by code_simp
  from C6_check_before_append [OF a1, of initial "''A''"] a2
  have first: "process_line ''A'' initial ''h1 100 ./x.bin\<newline>'' =
       initial\<lparr>files := (files initial)(''h1'' \<mapsto> [(''100'', ''A/x.bin'')])\<rparr>"
    by (simp add: a3 a4 a5)
  from C6_check_before_append [OF b1, of st_10 "''D''"] b2
  have second: "process_line ''D'' st_10 ''h 10 ./b\<newline>'' =
       st_10\<lparr>stdout := stdout st_10 @ scan_bucket ''h'' ''10'' ''D/b'' [(''10'', ''D/a'')],
             files := (files st_10)(''h'' \<mapsto> [(''10'', ''D/a'')] @ [(''10'', ''D/b'')])\<rparr>"
    by (simp add: b3 b4 b5)
  from a1 a2 first b1 b2 second show ?thesis by blast
qed

subsection \<open>C7: a manifest that cannot be opened\<close>

text \<open>
  C7: when \<open>open\<close> fails on the manifest of a directory, \<open>hashcheck\<close> prints the line
  \<open>dir: no .hashcheck found\<close> and returns normally, leaving the dictionary as it was;
  the run over the argument list goes on with the next directory, from the state
  reached before plus that line. (\<open>dir\<close> is the argument with trailing slashes
  removed, as the main loop passes it.)
\<close>

theorem C7_manifest_missing:
  assumes "dir = rstrip d ''/''"
    and "fs (path_join dir ''.hashcheck'') = None"
  shows "hashcheck fs dir st = st\<lparr>stdout := stdout st @ [dir @ '': no .hashcheck found'']\<rparr>
         \<and> files (hashcheck fs dir st) = files st
         \<and> run_dirs fs st (before @ d # after) =
             run_dirs fs
               ((run_dirs fs st before)
                  \<lparr>stdout := stdout (run_dirs fs st before) @ [dir @ '': no .hashcheck found'']\<rparr>)
               after"
proof -
  have step: "\<And>s. hashcheck fs dir s = s\<lparr>stdout := stdout s @ [dir @ '': no .hashcheck found'']\<rparr>"
    using assms(2) by (simp add: hashcheck_def)
  have "run_dirs fs st (before @ d # after) =
          run_dirs fs (hashcheck fs dir (run_dirs fs st before)) after"
    using assms(1) by (simp add: run_dirs_append run_dirs_Cons)
  then show ?thesis by (simp add: step)
qed

text \<open>
  With the manifests of \<open>A\<close> and \<open>B\<close> of the end-to-end scenario and no manifest in
  \<open>C\<close>: the run on \<open>A C/ B\<close> reports \<open>C\<close> as missing and still finds the match between
  \<open>A\<close> and \<open>B\<close>.
\<close>

theorem C7_manifest_missing_witness:
  "''C'' = rstrip ''C/'' ''/''
   \<and> fs_A_B (path_join ''C'' ''.hashcheck'') = None
   \<and> files (hashcheck fs_A_B ''C'' initial) = files initial
   \<and> run_dirs fs_A_B initial ([''A''] @ ''C/'' # [''B'']) =
       run_dirs fs_A_B
         ((run_dirs fs_A_B initial [''A''])
            \<lparr>stdout := stdout (run_dirs fs_A_B initial [''A'']) @ [''C'' @ '': no .hashcheck found'']\<rparr>)
         [''B'']
   \<and> stdout (main fs_A_B [''hashmatch.py'', ''A'', ''C/'', ''B'']) =
       [''A: processing .hashcheck'', ''C: no .hashcheck found'', ''B: processing .hashcheck'',
        ''h1'' @ [tab] @ ''100'' @ [tab] @ ''100'' @ [tab] @ ''B'' @ [tab] @ ''A'' @ [tab] @
        ''y.bin'' @ [tab] @ ''x.bin'' @ [tab] @ ''B/y.bin'' @ [tab] @ ''A/x.bin'']"
proof -
  have h1: "''C'' = rstrip ''C/'' ''/''"
    by code_simp
  have h2: "fs_A_B (path_join ''C'' ''.hashcheck'') = None"
    by code_simp
  have out: "stdout (main fs_A_B [''hashmatch.py'', ''A'', ''C/'', ''B'']) =
       [''A: processing .hashcheck'', ''C: no .hashcheck found'', ''B: processing .hashcheck'',
        ''h1'' @ [tab] @ ''100'' @ [tab] @ ''100'' @ [tab] @ ''B'' @ [tab] @ ''A'' @ [tab] @
        ''y.bin'' @ [tab] @ ''x.bin'' @ [tab] @ ''B/y.bin'' @ [tab] @ ''A/x.bin'']"
    by code_simp
  from C7_manifest_missing [of "''C''" "''C/''" fs_A_B initial "[''A'']" "[''B'']"] h1 h2 out
  show ?thesis by blast
qed

subsection \<open>C9: which file fills which fields of a report\<close>

text \<open>
  C9: whatever the loop body prints for a line is either nothing or a single line of
  nine tab-separated fields: the hash; then, in fields 2, 4, 6 and 8, the length
  token, directory part, file-name part and path of the record of this line; and in
  fields 3, 5, 7 and 9 the same four items of a tuple that was already in the bucket
  of that hash before this line was processed.
\<close>

theorem C9_report_field_order:
  "\<exists>out. stdout (process_line dir st line) = stdout st @ out \<and>
     (out = [] \<or>
      (\<exists>bucket len2 path2.
         files st (filehash_of line) = Some bucket \<and> (len2, path2) \<in> set bucket \<and>
         out = [join_tabs [filehash_of line, filelength_of line, len2,
                           dirname (filepath_of dir line), dirname path2,
                           basename (filepath_of dir line), basename path2,
                           filepath_of dir line, path2]]))"
proof (cases "filelength_of line = ''0'' \<or> files st (filehash_of line) = None")
  case True
  have "stdout (process_line dir st line) = stdout st @ []"
  proof (cases "filelength_of line = ''0''")
    case zero: True
    then show ?thesis by (simp add: process_line_zero)
  next
    case nonzero: False
    with True have "files st (filehash_of line) = None" by simp
    with nonzero show ?thesis by (simp add: process_line_stdout)
  qed
  then show ?thesis by blast
next
  case False
  then obtain bucket where b: "files st (filehash_of line) = Some bucket"
    and nz: "filelength_of line \<noteq> ''0''"
    by auto
  let ?scan = "scan_bucket (filehash_of line) (filelength_of line) (filepath_of dir line) bucket"
  from b nz have out: "stdout (process_line dir st line) = stdout st @ ?scan"
    by (simp add: process_line_stdout)
  from scan_bucket_cases [of "filehash_of line" "filelength_of line" "filepath_of dir line" bucket]
  show ?thesis
  proof
    assume "?scan = []"
    with out show ?thesis by simp
  next
    assume "\<exists>path2. (filelength_of line, path2) \<in> set bucket \<and>
      ?scan = [report_line (filehash_of line) (filelength_of line) (filelength_of line)
                 (filepath_of dir line) path2]"
    then obtain path2 where m: "(filelength_of line, path2) \<in> set bucket"
      and s: "?scan = [report_line (filehash_of line) (filelength_of line) (filelength_of line)
                 (filepath_of dir line) path2]"
      by blast
    from s have "?scan = [join_tabs [filehash_of line, filelength_of line, filelength_of line,
                           dirname (filepath_of dir line), dirname path2,
                           basename (filepath_of dir line), basename path2,
                           filepath_of dir line, path2]]"
      by (simp only: report_line_def)
    with out b m show ?thesis by blast
  qed
qed

subsection \<open>C10: lines without a space\<close>

text \<open>
  C10: the fields of a line are cut out by total operations (\<open>find\<close> and slicing do
  not raise). For a line without any space both searches answer \<open>-1\<close>, so the hash
  and the length token are the line without its last character and the raw path is
  the whole line; unless that length token is \<open>0\<close>, the record is stored in the
  bucket of that hash like any other. A line that holds only its terminator has an
  empty hash and an empty length token, and two such lines match each other.
\<close>

theorem C10_space_free_line:
  assumes "CHR '' '' \<notin> set line"
  shows "sp1_of line = - 1 \<and> sp2_of line = - 1
         \<and> filehash_of line = butlast line
         \<and> filelength_of line = butlast line
         \<and> rawpath_of line = line
         \<and> (butlast line \<noteq> ''0'' \<longrightarrow>
              files (process_line dir st line) (butlast line) =
                Some ((case files st (butlast line) of None \<Rightarrow> [] | Some b \<Rightarrow> b) @
                      [(butlast line, filepath_of dir line)]))
         \<and> filehash_of ''\<newline>'' = [] \<and> filelength_of ''\<newline>'' = []
         \<and> stdout (main fs_blank [''hashmatch.py'', ''E'']) =
             [''E: processing .hashcheck'',
              [tab, tab, tab] @ ''E'' @ [tab] @ ''E'' @ [tab, tab, tab] @ ''E/'' @ [tab] @ ''E/'']"
proof -
  from assms have sp1: "sp1_of line = - 1"
    by (simp add: sp1_of_def str_find_absent)
  from assms have sp2: "sp2_of line = - 1"
    by (simp add: sp2_of_def str_find_absent)
  have fh: "filehash_of line = butlast line"
    by (simp add: filehash_of_def sp1 slice_to_minus_one)
  have fl: "filelength_of line = butlast line"
    by (simp add: filelength_of_def sp1 sp2 slice_to_minus_one)
  have rp: "rawpath_of line = line"
    by (simp add: rawpath_of_def sp2 slice_from_zero)
  have stored: "butlast line \<noteq> ''0'' \<longrightarrow>
              files (process_line dir st line) (butlast line) =
                Some ((case files st (butlast line) of None \<Rightarrow> [] | Some b \<Rightarrow> b) @
                      [(butlast line, filepath_of dir line)])"
    using process_line_files [of line dir st] by (simp add: fh fl)
  have blank: "filehash_of ''\<newline>'' = [] \<and> filelength_of ''\<newline>'' = []"
    by code_simp
  have run: "stdout (main fs_blank [''hashmatch.py'', ''E'']) =
             [''E: processing .hashcheck'',
              [tab, tab, tab] @ ''E'' @ [tab] @ ''E'' @ [tab, tab, tab] @ ''E/'' @ [tab] @ ''E/'']"
    by code_simp
  from sp1 sp2 fh fl rp stored blank run show ?thesis by blast
qed

theorem C10_space_free_line_witness:
  "CHR '' '' \<notin> set ''abcd\<newline>''
   \<and> sp1_of ''abcd\<newline>'' = - 1 \<and> sp2_of ''abcd\<newline>'' = - 1
   \<and> filehash_of ''abcd\<newline>'' = ''abcd''
   \<and> filelength_of ''abcd\<newline>'' = ''abcd''
   \<and> rawpath_of ''abcd\<newline>'' = ''abcd\<newline>''
   \<and> ''abcd'' \<noteq> ''0''
   \<and> files (process_line ''d'' initial ''abcd\<newline>'') ''abcd'' = Some [(''abcd'', ''d/abcd'')]"
proof -
  have h: "CHR '' '' \<notin> set ''abcd\<newline>''"
    by simp
  have p: "filepath_of ''d'' ''abcd\<newline>'' = ''d/abcd''"
    by code_simp
  have e: "files initial ''abcd'' = None"
    by (simp add: initial_def)
  from C10_space_free_line [OF h, of "''d''" initial] h show ?thesis
    by (simp add: p e)
qed

end
